theory Spec2Isabelle
  imports Complex_Main "HOL-Library.Multiset"
begin

section \<open>JavaScript values\<close>

text \<open>
  The values that flow through the cache and the query string. Numbers are the integral
  ones (day ranges, page numbers, millisecond clocks); an object is its list of own
  properties in enumeration order, which for non-index keys is insertion order.
\<close>

datatype jsval =
    JUndefined
  | JNull
  | JBool bool
  | JNum int
  | JStr string
  | JArr "jsval list"
  | JObj "(string \<times> jsval) list"

section \<open>CacheCore: TTL stores and the global switch\<close>

text \<open>\<^verbatim>\<open>const TTL_PADRAO_MS = 30 * 60 * 1000\<close>\<close>

definition TTL_PADRAO_MS :: int where
  "TTL_PADRAO_MS = 30 * 60 * 1000"

text \<open>
  A stored entry \<^verbatim>\<open>{ dados, expiracao }\<close>, its field \<^verbatim>\<open>dados\<close> under the name
  \<open>dados_cache\<close>; a \<^verbatim>\<open>Map\<close> is a finite map from keys.
\<close>

record entry =
  dados_cache :: jsval
  expiracao :: int

type_synonym 'k store = "'k \<rightharpoonup> entry"

text \<open>
  \<^verbatim>\<open>setComTTL(map, chave, dados, ttl = TTL_PADRAO_MS)\<close>. The reading of \<^verbatim>\<open>Date.now()\<close>
  is the argument \<open>agora\<close> (milliseconds); an omitted \<open>ttl\<close> is \<open>None\<close>.
\<close>

definition setComTTL :: "'k store \<Rightarrow> 'k \<Rightarrow> jsval \<Rightarrow> int option \<Rightarrow> int \<Rightarrow> 'k store" where
  "setComTTL m chave d ttl agora =
     (let expiracao = agora + (case ttl of None \<Rightarrow> TTL_PADRAO_MS | Some t \<Rightarrow> t)
      in m(chave \<mapsto> \<lparr>dados_cache = d, expiracao = expiracao\<rparr>))"

text \<open>
  \<^verbatim>\<open>getValido(map, chave)\<close> returns the value and the store as it leaves it: an expired
  entry is deleted on the way.
\<close>

definition getValido :: "'k store \<Rightarrow> 'k \<Rightarrow> int \<Rightarrow> jsval \<times> 'k store" where
  "getValido m chave agora =
     (case m chave of
        None \<Rightarrow> (JNull, m)
      | Some e \<Rightarrow>
          if expiracao e < agora then (JNull, m(chave := None))
          else (dados_cache e, m))"

text \<open>
  The module state: the switch \<^verbatim>\<open>cacheAtivo\<close> and the four maps. The in-flight map holds
  pending computations, of a type the module does not look into.
\<close>

record 'p cachecore =
  cacheAtivo :: bool
  resultadoCache :: "string store"
  sensorCache :: "string store"
  fireStatsCache :: "string store"
  inFlightRequests :: "string \<rightharpoonup> 'p"

definition cachecore_inicial :: "'p cachecore" where
  "cachecore_inicial =
     \<lparr>cacheAtivo = True, resultadoCache = Map.empty, sensorCache = Map.empty,
      fireStatsCache = Map.empty, inFlightRequests = Map.empty\<rparr>"

definition isAtivo :: "'p cachecore \<Rightarrow> bool" where
  "isAtivo c = cacheAtivo c"

definition ativarCache :: "'p cachecore \<Rightarrow> 'p cachecore" where
  "ativarCache c = c\<lparr>cacheAtivo := True\<rparr>"

definition desativarCache :: "'p cachecore \<Rightarrow> 'p cachecore" where
  "desativarCache c = c\<lparr>cacheAtivo := False\<rparr>"

definition limparTodosCaches :: "'p cachecore \<Rightarrow> 'p cachecore" where
  "limparTodosCaches c =
     c\<lparr>sensorCache := Map.empty, resultadoCache := Map.empty,
       inFlightRequests := Map.empty, fireStatsCache := Map.empty\<rparr>"

text \<open>
  Callers pass one of the exported maps to the TTL helpers
  (\<^verbatim>\<open>CacheCore.getValido(CacheCore.resultadoCache, chave)\<close>); the map is shared with the
  module, so the helper's mutation is a mutation of the module state.
\<close>

datatype cacheRef = ResultadoCache | SensorCache | FireStatsCache

fun deref :: "cacheRef \<Rightarrow> 'p cachecore \<Rightarrow> string store" where
  "deref ResultadoCache c = resultadoCache c"
| "deref SensorCache c = sensorCache c"
| "deref FireStatsCache c = fireStatsCache c"

fun assign :: "cacheRef \<Rightarrow> string store \<Rightarrow> 'p cachecore \<Rightarrow> 'p cachecore" where
  "assign ResultadoCache m c = c\<lparr>resultadoCache := m\<rparr>"
| "assign SensorCache m c = c\<lparr>sensorCache := m\<rparr>"
| "assign FireStatsCache m c = c\<lparr>fireStatsCache := m\<rparr>"

definition setComTTL_em ::
  "cacheRef \<Rightarrow> string \<Rightarrow> jsval \<Rightarrow> int option \<Rightarrow> int \<Rightarrow> 'p cachecore \<Rightarrow> 'p cachecore" where
  "setComTTL_em r chave d ttl agora c = assign r (setComTTL (deref r c) chave d ttl agora) c"

definition getValido_em ::
  "cacheRef \<Rightarrow> string \<Rightarrow> int \<Rightarrow> 'p cachecore \<Rightarrow> jsval \<times> 'p cachecore" where
  "getValido_em r chave agora c =
     (let (v, m) = getValido (deref r c) chave agora in (v, assign r m c))"

section \<open>Cache keys: \<^verbatim>\<open>JSON.stringify\<close>\<close>




fun digitos :: "nat \<Rightarrow> string" where
  "digitos n =
     (if n < 10 then [char_of (48 + n)]
      else digitos (n div 10) @ [char_of (48 + n mod 10)])"

declare digitos.simps [simp del]

definition NumberToString :: "int \<Rightarrow> string" where
  "NumberToString i = (if i < 0 then ''-'' @ digitos (nat (- i)) else digitos (nat i))"

fun join :: "string \<Rightarrow> string list \<Rightarrow> string" where
  "join sep [] = []"
| "join sep [x] = x"
| "join sep (x # y # ys) = x @ sep @ join sep (y # ys)"


text \<open>Reading a property of an object: \<^verbatim>\<open>undefined\<close> when the object has no such key.\<close>

definition getProp :: "(string \<times> jsval) list \<Rightarrow> string \<Rightarrow> jsval" where
  "getProp kvs k = (case map_of kvs k of None \<Rightarrow> JUndefined | Some v \<Rightarrow> v)"




section \<open>FireService: listing, sorting and paging\<close>

text \<open>\<^verbatim>\<open>const MAX_RECORDS_ALL = 10000\<close>\<close>

definition MAX_RECORDS_ALL :: nat where
  "MAX_RECORDS_ALL = 10000"

text \<open>
  What the service throws or lets through: its own over-limit error, the error it raises
  and catches itself when the GeoJSON pass is incomplete, and a failure of a collaborator
  (with its message).
\<close>

datatype erro = LimiteExcedido | GeoJSONIncompleto | Falha string

text \<open>The request's query object; the service reads these four properties.\<close>

record query =
  q_page :: jsval
  q_limit :: jsval
  q_sort :: jsval
  q_all :: jsval

text \<open>The parsed parameters \<^verbatim>\<open>{ date, dayRange, timeRange }\<close>.\<close>

record params =
  date :: jsval
  dayRange :: jsval
  timeRange :: jsval

text \<open>What \<^verbatim>\<open>fetchFiresMT\<close> resolves to: an array of raw records, or something else.\<close>

datatype 'r bruto = NaoArray | Array "'r list"

text \<open>
  The imported collaborators, whose code is outside this module: the fetcher (it can
  fail), the format router and the sorter of \<^verbatim>\<open>FireModel\<close>, and \<^verbatim>\<open>parseQuery\<close>.
\<close>

record ('r, 'f) colaboradores =
  fetchFiresMT :: "params \<Rightarrow> erro + 'r bruto"
  routeByFormat :: "'r list \<Rightarrow> 'f list"
  sortFires :: "'f list \<Rightarrow> jsval \<Rightarrow> 'f list"
  parseQuery :: "query \<Rightarrow> params"

record Intervalo =
  inicio :: jsval
  fim :: jsval

record ParametrosBusca =
  data :: jsval
  diasConsiderados :: jsval
  ordenacao :: jsval
  intervaloHoras :: "Intervalo option"

record Paginacao =
  paginaAtual :: int
  itensPorPagina :: int
  totalPaginas :: int

record Metadados =
  parametrosBusca :: ParametrosBusca
  timestampConsulta :: string
  totalFocos :: nat
  paginacao :: "Paginacao option"

record 'f resposta =
  metadados :: Metadados
  dados :: "'f list"

fun truthy :: "jsval \<Rightarrow> bool" where
  "truthy JUndefined = False"
| "truthy JNull = False"
| "truthy (JBool b) = b"
| "truthy (JNum i) = (i \<noteq> 0)"
| "truthy (JStr s) = (s \<noteq> [])"
| "truthy (JArr xs) = True"
| "truthy (JObj kvs) = True"

definition isNonEmptyArray :: "'r bruto \<Rightarrow> bool" where
  "isNonEmptyArray arr = (case arr of NaoArray \<Rightarrow> False | Array xs \<Rightarrow> length xs > 0)"

definition routeListAll :: "('r, 'f) colaboradores \<Rightarrow> 'r bruto \<Rightarrow> 'f list" where
  "routeListAll C firesRaw =
     (let isEmpty = \<not> isNonEmptyArray firesRaw in
      if isEmpty then []
      else (case firesRaw of Array xs \<Rightarrow> routeByFormat C xs | NaoArray \<Rightarrow> []))"

definition listAll :: "('r, 'f) colaboradores \<Rightarrow> params \<Rightarrow> erro + 'f list" where
  "listAll C options =
     (case fetchFiresMT C options of
        Inl e \<Rightarrow> Inl e
      | Inr firesRaw \<Rightarrow> Inr (routeListAll C firesRaw))"

subsection \<open>\<^verbatim>\<open>parseInt(x, 10)\<close>\<close>

fun ToString :: "jsval \<Rightarrow> string" where
  "ToString JUndefined = ''undefined''"
| "ToString JNull = ''null''"
| "ToString (JBool b) = (if b then ''true'' else ''false'')"
| "ToString (JNum i) = NumberToString i"
| "ToString (JStr s) = s"
| "ToString (JArr xs) =
     join '','' (map (\<lambda>x. if x = JUndefined \<or> x = JNull then [] else ToString x) xs)"
| "ToString (JObj kvs) = ''[object Object]''"

definition isWhiteSpace :: "char \<Rightarrow> bool" where
  "isWhiteSpace c = ((of_char c :: nat) \<in> {9, 10, 11, 12, 13, 32})"

definition isDigit :: "char \<Rightarrow> bool" where
  "isDigit c = (48 \<le> (of_char c :: nat) \<and> (of_char c :: nat) \<le> 57)"

definition valorDigitos :: "string \<Rightarrow> int" where
  "valorDigitos ds = foldl (\<lambda>acc c. acc * 10 + (int (of_char c) - 48)) 0 ds"

text \<open>
  \<^verbatim>\<open>parseInt(x, 10)\<close>: the argument as a string, leading white space dropped, an optional
  sign, then the longest run of decimal digits; \<^verbatim>\<open>NaN\<close> (\<open>None\<close>) when there is no digit.
\<close>

definition parseInt10 :: "jsval \<Rightarrow> int option" where
  "parseInt10 v =
     (let s = dropWhile isWhiteSpace (ToString v);
          (neg, r) = (case s of
                        [] \<Rightarrow> (False, [])
                      | c # cs \<Rightarrow> if c = CHR ''-'' then (True, cs)
                                  else if c = CHR ''+'' then (False, cs)
                                  else (False, s));
          ds = takeWhile isDigit r
      in if ds = [] then None
         else Some (if neg then - valorDigitos ds else valorDigitos ds))"

text \<open>\<^verbatim>\<open>parseInt(query.page, 10) || 1\<close>: \<^verbatim>\<open>NaN\<close> and \<^verbatim>\<open>0\<close> are falsy.\<close>

definition parsePage :: "query \<Rightarrow> int" where
  "parsePage q = (case parseInt10 (q_page q) of None \<Rightarrow> 1 | Some n \<Rightarrow> if n = 0 then 1 else n)"

text \<open>\<^verbatim>\<open>parseInt(query.limit, 10) || 25\<close>\<close>

definition parseLimit :: "query \<Rightarrow> int" where
  "parseLimit q = (case parseInt10 (q_limit q) of None \<Rightarrow> 25 | Some n \<Rightarrow> if n = 0 then 25 else n)"

subsection \<open>Paging\<close>

text \<open>
  \<^verbatim>\<open>Array.prototype.slice(start, end)\<close>: a negative index counts from the end of the
  array, and both indices are clamped to the array.
\<close>

definition slice :: "'a list \<Rightarrow> int \<Rightarrow> int \<Rightarrow> 'a list" where
  "slice xs start endIdx =
     (let len = int (length xs);
          k = (if start < 0 then max (len + start) 0 else min start len);
          final = (if endIdx < 0 then max (len + endIdx) 0 else min endIdx len)
      in take (nat (final - k)) (drop (nat k) xs))"

definition getPagedData :: "'f list \<Rightarrow> int \<Rightarrow> int \<Rightarrow> 'f list" where
  "getPagedData sortedFires page limit =
     (let start = (page - 1) * limit; endIdx = start + limit
      in slice sortedFires start endIdx)"

text \<open>\<^verbatim>\<open>Math.ceil(a / b)\<close> for an integral \<open>a\<close> and a positive integral \<open>b\<close>.\<close>

definition ceilDiv :: "int \<Rightarrow> int \<Rightarrow> int" where
  "ceilDiv a b = - ((- a) div b)"

text \<open>
  \<^verbatim>\<open>if (!limit || typeof limit !== 'number' || limit <= 0) return 0\<close>; the limit is any
  value here, as the helper is public.
\<close>

definition getTotalPages :: "'f list \<Rightarrow> jsval \<Rightarrow> int" where
  "getTotalPages sortedFires limit =
     (case limit of
        JNum l \<Rightarrow>
          if \<not> truthy limit \<or> l \<le> 0 then 0 else ceilDiv (int (length sortedFires)) l
      | _ \<Rightarrow> 0)"

subsection \<open>Metadata\<close>

text \<open>\<^verbatim>\<open>query?.sort || 'sensor'\<close>\<close>

definition getSort :: "query \<Rightarrow> jsval" where
  "getSort q = (if truthy (q_sort q) then q_sort q else JStr ''sensor'')"

definition getIntervaloHoras :: "params \<Rightarrow> Intervalo option" where
  "getIntervaloHoras ps =
     (case timeRange ps of
        JObj kvs \<Rightarrow>
          if \<not> truthy (getProp kvs ''start'') \<or> \<not> truthy (getProp kvs ''end'') then None
          else Some \<lparr>inicio = getProp kvs ''start'', fim = getProp kvs ''end''\<rparr>
      | _ \<Rightarrow> None)"

text \<open>
  \<^verbatim>\<open>#buildMetadata(params, query, total)\<close>; \<open>agora\<close> is \<^verbatim>\<open>new Date().toISOString()\<close>.
  The key \<^verbatim>\<open>paginacao\<close> is absent until the paged handler adds it.
\<close>

definition buildMetadata :: "params \<Rightarrow> query \<Rightarrow> nat \<Rightarrow> string \<Rightarrow> Metadados" where
  "buildMetadata ps q totalRegistros agora =
     (let intervalo = getIntervaloHoras ps in
      \<lparr>parametrosBusca =
         \<lparr>data = date ps, diasConsiderados = dayRange ps, ordenacao = getSort q,
          intervaloHoras = intervalo\<rparr>,
       timestampConsulta = agora, totalFocos = totalRegistros, paginacao = None\<rparr>)"

subsection \<open>The two handlers and their choice\<close>

definition isAllFiresRequested :: "query \<Rightarrow> bool" where
  "isAllFiresRequested q = (q_all q = JStr ''true'' \<or> q_all q = JBool True)"

definition getAllFiresNoPagination ::
  "('r, 'f) colaboradores \<Rightarrow> string \<Rightarrow> params \<Rightarrow> query \<Rightarrow> erro + 'f resposta" where
  "getAllFiresNoPagination C agora ps q =
     (case listAll C ps of
        Inl e \<Rightarrow> Inl e
      | Inr fires \<Rightarrow>
          if length fires > MAX_RECORDS_ALL then Inl LimiteExcedido
          else
            (let firesFormatted = fires;
                 sortedFires = sortFires C firesFormatted (q_sort q)
             in Inr \<lparr>metadados = buildMetadata ps q (length sortedFires) agora,
                     dados = sortedFires\<rparr>))"

definition getPagedFires ::
  "('r, 'f) colaboradores \<Rightarrow> string \<Rightarrow> params \<Rightarrow> query \<Rightarrow> erro + 'f resposta" where
  "getPagedFires C agora ps q =
     (let page = parsePage q; limit = parseLimit q in
      case listAll C ps of
        Inl e \<Rightarrow> Inl e
      | Inr fires \<Rightarrow>
          (let firesFormatted = fires;
               sortedFires = sortFires C firesFormatted (q_sort q);
               pagedData = getPagedData sortedFires page limit;
               totalPages = getTotalPages sortedFires (JNum limit)
           in Inr \<lparr>metadados =
                     (buildMetadata ps q (length sortedFires) agora)
                       \<lparr>paginacao :=
                          Some \<lparr>paginaAtual = page, itensPorPagina = limit,
                                totalPaginas = totalPages\<rparr>\<rparr>,
                   dados = pagedData\<rparr>))"

definition chooseFireListHandler ::
  "query \<Rightarrow> ('r, 'f) colaboradores \<Rightarrow> string \<Rightarrow> params \<Rightarrow> query \<Rightarrow> erro + 'f resposta" where
  "chooseFireListHandler q =
     (if isAllFiresRequested q then getAllFiresNoPagination else getPagedFires)"

definition routeListAllFormattedPaginated ::
  "('r, 'f) colaboradores \<Rightarrow> string \<Rightarrow> query \<Rightarrow> erro + 'f resposta" where
  "routeListAllFormattedPaginated C agora q =
     (let ps = parseQuery C q in chooseFireListHandler q C agora ps q)"

definition listAllFormattedPaginated ::
  "('r, 'f) colaboradores \<Rightarrow> string \<Rightarrow> query \<Rightarrow> erro + 'f resposta" where
  "listAllFormattedPaginated C agora q = routeListAllFormattedPaginated C agora q"

section \<open>FireService: location enrichment\<close>

text \<open>
  A normalised fire record: it has its coordinates as they came from upstream, and its
  other properties.
\<close>

record fire =
  longitude :: jsval
  latitude :: jsval
  demais :: "(string \<times> jsval) list"

text \<open>
  The point built for a fire, \<^verbatim>\<open>{ longitude, latitude, fireData }\<close>; the coordinates are
  what \<^verbatim>\<open>parseFloat\<close> makes of the fire's, numbers of a type \<open>'n\<close>.
\<close>

record 'n point =
  pt_longitude :: 'n
  pt_latitude :: 'n
  fireData :: fire

text \<open>
  A \<^verbatim>\<open>localizacao\<close> object. The municipality and city are strings when present; a
  property that is absent (or \<^verbatim>\<open>undefined\<close>) is \<open>None\<close>.
\<close>

record Localizacao =
  municipio :: "string option"
  comandoRegional :: "string option"
  cidade :: "string option"

text \<open>An item of \<^verbatim>\<open>GeoMunicipalityMatcher.batchLocate\<close>: the point and, maybe, a location.\<close>

record 'n localizado =
  ponto :: "'n point"
  localizacao :: "Localizacao option"

text \<open>An item of \<^verbatim>\<open>MapboxReverseGeocoder.batchGeocode\<close>; the service reads these two.\<close>

record geocodificado =
  g_fireData :: fire
  g_localizacao :: "Localizacao option"

text \<open>
  A returned record: on the GeoJSON path the located item with its location replaced
  (\<^verbatim>\<open>{ ...foco, localizacao: {...} }\<close>), on the Mapbox path the fire with the geocoder's
  location as it came (\<^verbatim>\<open>{ ...item.fireData, localizacao: item.localizacao }\<close>).
\<close>

datatype 'n focoLocalizado =
    ViaGeoJSON "'n localizado"
  | ViaMapbox fire "Localizacao option"



text \<open>
  What the enrichment works with and does not define: \<^verbatim>\<open>parseFloat\<close> and the two
  imported services, each of which can fail.
\<close>

record 'n ambiente =
  parseFloat :: "jsval \<Rightarrow> 'n"
  batchLocate :: "'n point list \<Rightarrow> erro + 'n localizado list"
  batchGeocode :: "'n point list \<Rightarrow> erro + geocodificado list"

definition toPoints :: "'n ambiente \<Rightarrow> fire list \<Rightarrow> 'n point list" where
  "toPoints A fires =
     map (\<lambda>fire. \<lparr>pt_longitude = parseFloat A (longitude fire),
                  pt_latitude = parseFloat A (latitude fire),
                  fireData = fire\<rparr>) fires"

text \<open>\<^verbatim>\<open>{ ...foco.localizacao }\<close>: no property at all when the location is missing.\<close>

definition spreadLocalizacao :: "Localizacao option \<Rightarrow> Localizacao" where
  "spreadLocalizacao l =
     (case l of
        None \<Rightarrow> \<lparr>municipio = None, comandoRegional = None, cidade = None\<rparr>
      | Some x \<Rightarrow> x)"

text \<open>\<^verbatim>\<open>foco.localizacao?.municipio || 'N/A'\<close>: an absent or empty name is falsy.\<close>

definition municipioOuNA :: "Localizacao option \<Rightarrow> string" where
  "municipioOuNA l =
     (case l of
        None \<Rightarrow> ''N/A''
      | Some x \<Rightarrow> (case municipio x of
                     None \<Rightarrow> ''N/A''
                   | Some m \<Rightarrow> if m \<noteq> [] then m else ''N/A''))"

text \<open>
  The function mapped over the located items,
  \<^verbatim>\<open>foco => ({ ...foco, localizacao: { ...foco.localizacao, cidade: ... } })\<close>.
\<close>

definition padronizar :: "'n localizado \<Rightarrow> 'n localizado" where
  "padronizar foco =
     foco\<lparr>localizacao :=
            Some ((spreadLocalizacao (localizacao foco))
                    \<lparr>cidade := Some (municipioOuNA (localizacao foco))\<rparr>)\<rparr>"

definition addMunicipalityLocationData ::
  "'n ambiente \<Rightarrow> fire list \<Rightarrow> erro + 'n localizado list" where
  "addMunicipalityLocationData A fires =
     (let points = toPoints A fires in
      case batchLocate A points of
        Inl e \<Rightarrow> Inl e
      | Inr localizados \<Rightarrow> Inr (map padronizar localizados))"

text \<open>
  \<^verbatim>\<open>f.localizacao && f.localizacao.municipio && f.localizacao.municipio !== 'N/A'\<close>
\<close>

definition temMunicipio :: "'n localizado \<Rightarrow> bool" where
  "temMunicipio f =
     (case localizacao f of
        None \<Rightarrow> False
      | Some l \<Rightarrow> (case municipio l of
                     None \<Rightarrow> False
                   | Some m \<Rightarrow> m \<noteq> [] \<and> m \<noteq> ''N/A''))"

text \<open>
  The body of the \<^verbatim>\<open>try\<close> block: the GeoJSON pass, then the error the block throws at
  itself when a fire was left without a municipality.
\<close>

definition tentarGeoJSON :: "'n ambiente \<Rightarrow> fire list \<Rightarrow> erro + 'n localizado list" where
  "tentarGeoJSON A fires =
     (case addMunicipalityLocationData A fires of
        Inl e \<Rightarrow> Inl e
      | Inr located \<Rightarrow>
          (let allLocated = list_all temMunicipio located in
           if \<not> allLocated then Inl GeoJSONIncompleto else Inr located))"

text \<open>
  \<^verbatim>\<open>addLocationData(fires)\<close>. The result comes with the list of the calls made to
  \<^verbatim>\<open>batchGeocode\<close>, each with the points it was given: the network traffic of the
  enrichment. An error of the \<^verbatim>\<open>try\<close> block goes to the \<^verbatim>\<open>catch\<close>, an error of the
  \<^verbatim>\<open>catch\<close> block leaves the function.
\<close>

definition addLocationData ::
  "'n ambiente \<Rightarrow> fire list \<Rightarrow> 'n point list list \<times> (erro + 'n focoLocalizado list)" where
  "addLocationData A fires =
     (case tentarGeoJSON A fires of
        Inr located \<Rightarrow> ([], Inr (map ViaGeoJSON located))
      | Inl err \<Rightarrow>
          (let points = toPoints A fires in
           ([points],
            case batchGeocode A points of
              Inl e \<Rightarrow> Inl e
            | Inr locations \<Rightarrow>
                Inr (map (\<lambda>item. ViaMapbox (g_fireData item) (g_localizacao item)) locations))))"

text \<open>\<^verbatim>\<open>listAllWithLocation(query)\<close>: the full listing (\<^verbatim>\<open>all: true\<close>), then the enrichment.\<close>

definition listAllWithLocation ::
  "('r, fire) colaboradores \<Rightarrow> 'n ambiente \<Rightarrow> string \<Rightarrow> query \<Rightarrow>
     'n point list list \<times> (erro + Metadados \<times> 'n focoLocalizado list)" where
  "listAllWithLocation C A agora q =
     (case listAllFormattedPaginated C agora (q\<lparr>q_all := JBool True\<rparr>) of
        Inl e \<Rightarrow> ([], Inl e)
      | Inr r \<Rightarrow>
          (let (chamadas, res) = addLocationData A (dados r) in
           (chamadas,
            case res of
              Inl e \<Rightarrow> Inl e
            | Inr firesWithLocation \<Rightarrow> Inr (metadados r, firesWithLocation))))"

section \<open>The in-flight request registry\<close>

text \<open>
  The module keeps the map \<^verbatim>\<open>inFlightRequests\<close> and clears it in \<^verbatim>\<open>limparTodosCaches\<close>; the
  code that registers and removes pending computations is not among the sources. A
  pending computation is known here by its number. Around the module state there is the
  number of the next computation to be started, the keys for which the factory was
  invoked, in order, and the outcome of each computation that has settled.
\<close>

record 'r emVoo =
  core :: "nat cachecore"
  proxima :: nat
  fabricadas :: "string list"
  resultados :: "nat \<rightharpoonup> erro + 'r"

abbreviation registro :: "'r emVoo \<Rightarrow> string \<rightharpoonup> nat" where
  "registro s \<equiv> inFlightRequests (core s)"

definition emVoo_inicial :: "'r emVoo" where
  "emVoo_inicial =
     \<lparr>core = cachecore_inicial, proxima = 0, fabricadas = [], resultados = Map.empty\<rparr>"

text \<open>
  Modelled from the spec: \<^verbatim>\<open>getOrCreate(key, factory)\<close>, which is missing from the sources.
  The spec has it return the existing pending computation if one is registered for that
  key, and otherwise register and return a newly started one, check and registration
  being one uninterrupted step. Starting a computation is an invocation of the factory.
\<close>

definition getOrCreate :: "'r emVoo \<Rightarrow> string \<Rightarrow> nat \<times> 'r emVoo" where
  "getOrCreate s k =
     (case registro s k of
        Some t \<Rightarrow> (t, s)
      | None \<Rightarrow>
          (proxima s,
           s\<lparr>core := (core s)\<lparr>inFlightRequests := (registro s)(k \<mapsto> proxima s)\<rparr>,
             proxima := Suc (proxima s),
             fabricadas := fabricadas s @ [k]\<rparr>))"

text \<open>
  Modelled from the spec: the settling of the computation registered for a key, which is
  missing from the sources. The spec has the registry entry removed once the computation
  settles, with success or with failure; the outcome is what every holder of the
  computation receives.
\<close>

definition concluir :: "'r emVoo \<Rightarrow> string \<Rightarrow> erro + 'r \<Rightarrow> 'r emVoo" where
  "concluir s k out =
     (case registro s k of
        None \<Rightarrow> s
      | Some t \<Rightarrow>
          s\<lparr>core := (core s)\<lparr>inFlightRequests := (registro s)(k := None)\<rparr>,
            resultados := (resultados s)(t \<mapsto> out)\<rparr>)"

text \<open>
  What happens to the registry, one uninterrupted step at a time: a caller asks for a
  key, the computation of a key settles, or the module is reset by \<open>limparTodosCaches\<close>.
  A run gives each caller, in order, its key and the computation it was handed.
\<close>

datatype 'r evento = Pedido string | Conclusao string "erro + 'r" | Limpeza

fun executar :: "'r emVoo \<Rightarrow> 'r evento list \<Rightarrow> (string \<times> nat) list \<times> 'r emVoo" where
  "executar s [] = ([], s)"
| "executar s (Pedido k # es) =
     (let (t, s1) = getOrCreate s k; (ts, s2) = executar s1 es in ((k, t) # ts, s2))"
| "executar s (Conclusao k out # es) = executar (concluir s k out) es"
| "executar s (Limpeza # es) = executar (s\<lparr>core := limparTodosCaches (core s)\<rparr>) es"

text \<open>Every registered computation has been started: its number is below the next one.\<close>

definition coerente :: "'r emVoo \<Rightarrow> bool" where
  "coerente s = (\<forall>k t. registro s k = Some t \<longrightarrow> t < proxima s)"

section \<open>Stand-ins for the collaborators, for worked examples\<close>

text \<open>
  Records are numbers; the fetch answers with the given raw array, the router keeps the
  records as they are, the sorter sorts them in ascending order, and the parsed parameters
  are those of \<^verbatim>\<open>dt=2024-06-06&dr=1\<close>.
\<close>

definition colaboradoresDeExemplo :: "nat list \<Rightarrow> (nat, nat) colaboradores" where
  "colaboradoresDeExemplo brutos =
     \<lparr>fetchFiresMT = (\<lambda>ps. Inr (Array brutos)),
      routeByFormat = (\<lambda>xs. xs),
      sortFires = (\<lambda>xs k. sort xs),
      parseQuery = (\<lambda>q. \<lparr>date = JStr ''2024-06-06'', dayRange = JNum 1,
                             timeRange = JUndefined\<rparr>)\<rparr>"


text \<open>
  For the enrichment: fires at a given longitude; a boundary set that knows one
  municipality and answers \<^verbatim>\<open>N/A\<close> elsewhere; a reverse-geocoding service that knows two
  places; a geocoder that asks the service and labels each point with the name it got, as
  municipality and as city, or with \<^verbatim>\<open>N/A\<close>; a geocoder that answers with a municipality
  and nothing else; and environments whose \<^verbatim>\<open>parseFloat\<close> keeps the value it is given.
\<close>

definition focoDeExemplo :: "string \<Rightarrow> fire" where
  "focoDeExemplo lon = \<lparr>longitude = JStr lon, latitude = JStr ''-15.6'', demais = []\<rparr>"

definition poligonosDeExemplo :: "jsval point \<Rightarrow> Localizacao option" where
  "poligonosDeExemplo p =
     (if pt_longitude p = JStr ''-56.1''
      then Some \<lparr>municipio = Some ''Cuiaba'', comandoRegional = Some ''CR I'', cidade = None\<rparr>
      else Some \<lparr>municipio = Some ''N/A'', comandoRegional = Some ''N/A'', cidade = None\<rparr>)"

definition servicoDeExemplo :: "jsval point list \<Rightarrow> erro + (jsval point \<Rightarrow> string option)" where
  "servicoDeExemplo ps =
     Inr (\<lambda>p. if pt_longitude p = JStr ''-56.1'' then Some ''Cuiaba''
               else if pt_longitude p = JStr ''-55.5'' then Some ''Sinop''
               else None)"

definition servicoForaDoAr :: "jsval point list \<Rightarrow> erro + (jsval point \<Rightarrow> string option)" where
  "servicoForaDoAr ps = Inl (Falha ''timeout'')"

definition geocoderDeExemplo ::
  "('n point list \<Rightarrow> erro + ('n point \<Rightarrow> string option)) \<Rightarrow>
     'n point list \<Rightarrow> erro + geocodificado list" where
  "geocoderDeExemplo servico points =
     (case servico points of
        Inl e \<Rightarrow> Inl e
      | Inr endereco \<Rightarrow>
          Inr (map (\<lambda>p.
                 (let nome = (case endereco p of
                                None \<Rightarrow> ''N/A''
                              | Some s \<Rightarrow> if s = [] then ''N/A'' else s)
                  in \<lparr>g_fireData = fireData p,
                      g_localizacao =
                        Some \<lparr>municipio = Some nome, comandoRegional = None,
                              cidade = Some nome\<rparr>\<rparr>))
               points))"


definition ambienteDeExemplo ::
  "(jsval point list \<Rightarrow> erro + (jsval point \<Rightarrow> string option)) \<Rightarrow> jsval ambiente" where
  "ambienteDeExemplo servico =
     \<lparr>parseFloat = (\<lambda>v. v),
      batchLocate = (\<lambda>ps. Inr (map (\<lambda>p. \<lparr>ponto = p, localizacao = poligonosDeExemplo p\<rparr>) ps)),
      batchGeocode = geocoderDeExemplo servico\<rparr>"

definition ambienteSemGeoJSON ::
  "(jsval point list \<Rightarrow> erro + (jsval point \<Rightarrow> string option)) \<Rightarrow> jsval ambiente" where
  "ambienteSemGeoJSON servico =
     \<lparr>parseFloat = (\<lambda>v. v),
      batchLocate = (\<lambda>ps. Inl (Falha ''GeoJSON ausente'')),
      batchGeocode = geocoderDeExemplo servico\<rparr>"


section \<open>Properties of the cache\<close>

lemma deref_desativarCache: "deref r (desativarCache c) = deref r c"
  by (cases r) (simp_all add: desativarCache_def)

lemma deref_ativarCache: "deref r (ativarCache c) = deref r c"
  by (cases r) (simp_all add: ativarCache_def)

lemma assign_desativarCache: "assign r m (desativarCache c) = desativarCache (assign r m c)"
  by (cases r) (simp_all add: desativarCache_def)

lemma deref_assign: "deref r (assign r m c) = m"
  by (cases r) simp_all

lemma getValido_fresh:
  "0 \<le> t \<Longrightarrow> fst (getValido (setComTTL m k v (Some t) agora) k agora) = v"
  by (simp add: getValido_def setComTTL_def)

text \<open>
  Claim C1. For every key \<open>k\<close>, value \<open>v\<close> and ttl \<open>t > 0\<close>: a \<open>getValido\<close> right after
  \<open>setComTTL\<close> (at the same clock reading, and at any reading up to the expiration instant
  \<open>agora + t\<close>) returns \<open>v\<close> and leaves the store alone; a \<open>getValido\<close> at a reading strictly
  after the expiration instant returns \<^verbatim>\<open>null\<close> and leaves the store without the entry.
  The clock and the ttl are whole milliseconds.
\<close>

theorem setComTTL_getValido:
  "0 < t \<Longrightarrow>
     getValido (setComTTL m k v (Some t) agora) k agora = (v, setComTTL m k v (Some t) agora) \<and>
     (\<forall>depois. depois \<le> agora + t \<longrightarrow>
        getValido (setComTTL m k v (Some t) agora) k depois
          = (v, setComTTL m k v (Some t) agora)) \<and>
     (\<forall>depois. agora + t < depois \<longrightarrow>
        getValido (setComTTL m k v (Some t) agora) k depois = (JNull, m(k := None)))"
  by (simp add: getValido_def setComTTL_def)

theorem setComTTL_getValido_witness:
  "getValido (setComTTL Map.empty ''a'' (JNum 7) (Some 1000) 5) ''a'' 5
     = (JNum 7, setComTTL Map.empty ''a'' (JNum 7) (Some 1000) 5) \<and>
   getValido (setComTTL Map.empty ''a'' (JNum 7) (Some 1000) 5) ''a'' 1005
     = (JNum 7, setComTTL Map.empty ''a'' (JNum 7) (Some 1000) 5) \<and>
   getValido (setComTTL Map.empty ''a'' (JNum 7) (Some 1000) 5) ''a'' 1006
     = (JNull, (Map.empty :: string store)(''a'' := None))"
  using setComTTL_getValido [of 1000 Map.empty "''a''" "JNum 7" 5] by simp

text \<open>
  Claim C2, as stated, fails: \<open>getValido\<close> never reads \<open>cacheAtivo\<close>. With the cache
  disabled, an entry written during the disabled period, and an entry written before it,
  are both returned, not \<^verbatim>\<open>null\<close>.
\<close>

theorem getValido_disabled_counterexample:
  "\<not> isAtivo (setComTTL_em ResultadoCache ''a'' (JNum 7) (Some 1000) 0
        (desativarCache (cachecore_inicial :: unit cachecore))) \<and>
   fst (getValido_em ResultadoCache ''a'' 1
         (setComTTL_em ResultadoCache ''a'' (JNum 7) (Some 1000) 0
            (desativarCache (cachecore_inicial :: unit cachecore)))) = JNum 7 \<and>
   \<not> isAtivo (desativarCache (setComTTL_em SensorCache ''b'' (JStr ''x'') None 0
        (cachecore_inicial :: unit cachecore))) \<and>
   fst (getValido_em SensorCache ''b'' 1
         (desativarCache (setComTTL_em SensorCache ''b'' (JStr ''x'') None 0
            (cachecore_inicial :: unit cachecore)))) = JStr ''x''"
  by (simp add: isAtivo_def setComTTL_em_def getValido_em_def desativarCache_def
      cachecore_inicial_def setComTTL_def getValido_def TTL_PADRAO_MS_def)

text \<open>
  Claim C2, amended. While the cache is disabled \<open>isAtivo\<close> reports false, and that is all
  the switch does: \<open>getValido\<close> returns (and evicts) exactly as it does when the cache is
  enabled, and \<open>setComTTL\<close> writes as it does when enabled. So a value written with a
  positive ttl while the cache is disabled is returned by a \<open>getValido\<close> made while it is
  still disabled, and again once the cache is enabled. A miss while disabled is up to the
  callers that test \<open>isAtivo\<close>.
\<close>

theorem getValido_ignores_switch:
  "isAtivo (desativarCache c) = False \<and>
   getValido_em r k agora (desativarCache c)
     = (fst (getValido_em r k agora c), desativarCache (snd (getValido_em r k agora c))) \<and>
   setComTTL_em r k v ttl agora (desativarCache c)
     = desativarCache (setComTTL_em r k v ttl agora c) \<and>
   (0 < t \<longrightarrow>
      fst (getValido_em r k agora (setComTTL_em r k v (Some t) agora (desativarCache c))) = v \<and>
      fst (getValido_em r k agora
             (ativarCache (setComTTL_em r k v (Some t) agora (desativarCache c)))) = v)"
proof -
  have flag: "isAtivo (desativarCache c) = False"
    by (simp add: isAtivo_def desativarCache_def)
  have get: "getValido_em r k agora (desativarCache c)
     = (fst (getValido_em r k agora c), desativarCache (snd (getValido_em r k agora c)))"
    by (simp add: getValido_em_def deref_desativarCache assign_desativarCache split: prod.splits)
  have set: "setComTTL_em r k v ttl agora (desativarCache c)
     = desativarCache (setComTTL_em r k v ttl agora c)"
    by (simp add: setComTTL_em_def deref_desativarCache assign_desativarCache)
  have fresh:
    "fst (getValido_em r k agora (setComTTL_em r k v (Some t) agora (desativarCache c))) = v"
    and again: "fst (getValido_em r k agora
             (ativarCache (setComTTL_em r k v (Some t) agora (desativarCache c)))) = v"
    if "0 < t"
    using that getValido_fresh [of t "deref r c" k v agora]
    by (auto simp add: getValido_em_def setComTTL_em_def deref_assign deref_desativarCache
        deref_ativarCache split: prod.splits)
  from flag get set fresh again show ?thesis by blast
qed

theorem getValido_ignores_switch_witness:
  "isAtivo (desativarCache (cachecore_inicial :: unit cachecore)) = False \<and>
   fst (getValido_em FireStatsCache ''q'' 10
          (setComTTL_em FireStatsCache ''q'' (JStr ''stats'') (Some 60000) 10
             (desativarCache (cachecore_inicial :: unit cachecore)))) = JStr ''stats'' \<and>
   fst (getValido_em FireStatsCache ''q'' 10
          (ativarCache (setComTTL_em FireStatsCache ''q'' (JStr ''stats'') (Some 60000) 10
             (desativarCache (cachecore_inicial :: unit cachecore))))) = JStr ''stats''"
  using getValido_ignores_switch
    [of "cachecore_inicial :: unit cachecore" FireStatsCache "''q''" 10 "JStr ''stats''" None 60000]
  by simp

section \<open>Properties of the cache keys\<close>






section \<open>Properties of the listing\<close>

lemma listAllFormattedPaginated_all:
  "isAllFiresRequested q \<Longrightarrow>
     listAllFormattedPaginated C agora q = getAllFiresNoPagination C agora (parseQuery C q) q"
  by (simp add: listAllFormattedPaginated_def routeListAllFormattedPaginated_def
      chooseFireListHandler_def)


lemma take_drop_indices:
  "take n (drop k xs) = map ((!) xs) [min k (length xs) ..< min (k + n) (length xs)]"
proof (rule nth_equalityI)
  show "length (take n (drop k xs))
      = length (map ((!) xs) [min k (length xs) ..< min (k + n) (length xs)])"
    by simp
next
  fix i
  assume "i < length (take n (drop k xs))"
  then have i: "i < n" "k + i < length xs"
    by auto
  then have "(take n (drop k xs)) ! i = xs ! (k + i)"
    by simp
  moreover from i have "map ((!) xs) [min k (length xs) ..< min (k + n) (length xs)] ! i
      = xs ! (k + i)"
    by (simp add: min_def)
  ultimately show "take n (drop k xs) ! i
      = map ((!) xs) [min k (length xs) ..< min (k + n) (length xs)] ! i"
    by simp
qed






lemma listAll_exemplo: "listAll (colaboradoresDeExemplo brutos) ps = Inr brutos"
  by (cases brutos)
    (simp_all add: listAll_def colaboradoresDeExemplo_def routeListAll_def isNonEmptyArray_def)

lemma sortFires_exemplo: "sortFires (colaboradoresDeExemplo brutos) xs k = sort xs"
  by (simp add: colaboradoresDeExemplo_def)



lemma range_clamped:
  "0 \<le> k \<Longrightarrow> k \<le> f \<Longrightarrow> f \<le> int n \<Longrightarrow>
     min (nat k) n = nat k \<and> min (nat k + nat (f - k)) n = nat f"
  by linarith

lemma map_upt_Nil: "map g [a..<b] = [] \<longleftrightarrow> b \<le> a"
  by auto

lemma range_empty_iff:
  "0 < l \<Longrightarrow> nat (max a 0) \<le> nat (max (a - l) 0) \<longleftrightarrow> a \<le> (0::int)"
  by linarith

text \<open>
  Claim C3. In \<^verbatim>\<open>all=true\<close> mode, for a query whose fetched and normalised record list has
  length \<open>L\<close>: if \<open>L > 10000\<close>, \<open>listAllFormattedPaginated\<close> fails with the over-limit
  error, and so returns no data; if \<open>L \<le> 10000\<close>, it returns the list as \<open>sortFires\<close>
  sorted it, which holds exactly the \<open>L\<close> records, with \<open>totalFocos = L\<close> and no
  \<open>paginacao\<close>. The sorter belongs to \<^verbatim>\<open>FireModel\<close>; what is asked of it is that it
  returns a permutation of the list it is given.
\<close>

theorem listAll_over_limit:
  assumes "isAllFiresRequested q"
    and "listAll C (parseQuery C q) = Inr fires"
  shows "(10000 < length fires \<longrightarrow> listAllFormattedPaginated C agora q = Inl LimiteExcedido) \<and>
    (length fires \<le> 10000 \<and> mset (sortFires C fires (q_sort q)) = mset fires \<longrightarrow>
       (\<exists>r. listAllFormattedPaginated C agora q = Inr r \<and>
            dados r = sortFires C fires (q_sort q) \<and>
            mset (dados r) = mset fires \<and>
            length (dados r) = length fires \<and>
            totalFocos (metadados r) = length fires \<and>
            paginacao (metadados r) = None))"
proof (intro conjI impI)
  assume "10000 < length fires"
  with assms show "listAllFormattedPaginated C agora q = Inl LimiteExcedido"
    by (simp add: listAllFormattedPaginated_all getAllFiresNoPagination_def MAX_RECORDS_ALL_def)
next
  assume h: "length fires \<le> 10000 \<and> mset (sortFires C fires (q_sort q)) = mset fires"
  then have len: "length (sortFires C fires (q_sort q)) = length fires"
    using mset_eq_length by blast
  from h assms len show "\<exists>r. listAllFormattedPaginated C agora q = Inr r \<and>
            dados r = sortFires C fires (q_sort q) \<and>
            mset (dados r) = mset fires \<and>
            length (dados r) = length fires \<and>
            totalFocos (metadados r) = length fires \<and>
            paginacao (metadados r) = None"
    by (simp add: listAllFormattedPaginated_all getAllFiresNoPagination_def MAX_RECORDS_ALL_def
        buildMetadata_def)
qed

theorem listAll_over_limit_witness:
  "listAllFormattedPaginated (colaboradoresDeExemplo (replicate 10001 0))
      ''2024-06-06T12:00:00.000Z''
      \<lparr>q_page = JUndefined, q_limit = JUndefined, q_sort = JStr ''sensor'',
       q_all = JStr ''true''\<rparr>
     = Inl LimiteExcedido \<and>
   (\<exists>r. listAllFormattedPaginated (colaboradoresDeExemplo [3, 1, 2])
      ''2024-06-06T12:00:00.000Z''
      \<lparr>q_page = JUndefined, q_limit = JUndefined, q_sort = JStr ''sensor'',
       q_all = JStr ''true''\<rparr> = Inr r \<and>
      dados r = [1, 2, 3] \<and> totalFocos (metadados r) = 3 \<and> paginacao (metadados r) = None)"
proof -
  let ?q = "\<lparr>q_page = JUndefined, q_limit = JUndefined, q_sort = JStr ''sensor'',
       q_all = JStr ''true''\<rparr>"
  have a: "isAllFiresRequested ?q"
    by (simp add: isAllFiresRequested_def)
  have big: "listAllFormattedPaginated (colaboradoresDeExemplo (replicate 10001 0))
      ''2024-06-06T12:00:00.000Z'' ?q = Inl LimiteExcedido"
    using listAll_over_limit [OF a listAll_exemplo, of "replicate 10001 0"
        "''2024-06-06T12:00:00.000Z''"]
    by simp
  have small: "\<exists>r. listAllFormattedPaginated (colaboradoresDeExemplo [3, 1, 2])
      ''2024-06-06T12:00:00.000Z'' ?q = Inr r \<and>
      dados r = [1, 2, 3] \<and> totalFocos (metadados r) = 3 \<and> paginacao (metadados r) = None"
    using listAll_over_limit [OF a listAll_exemplo, of "[3, 1, 2]"
        "''2024-06-06T12:00:00.000Z''"]
    by (auto simp add: sortFires_exemplo)
  from big small show ?thesis by (rule conjI)
qed




text \<open>
  Claim C10, as stated, fails: a negative page does not always give records. With
  \<^verbatim>\<open>page=-1&limit=25\<close> a list of 10 records gives an empty page, and a list of 50 records
  gives exactly the first page.
\<close>

theorem negative_page_counterexample:
  "parsePage \<lparr>q_page = JStr ''-1'', q_limit = JStr ''25'', q_sort = JUndefined,
              q_all = JUndefined\<rparr> = - 1 \<and>
   getPagedData [0..<10] (- 1) 25 = [] \<and>
   getPagedData [0..<50] (- 1) 25 = [0..<25] \<and>
   getPagedData [0..<50] 1 25 = [0..<25]"
  by code_simp

text \<open>
  Claim C10, amended. If the query's page parses to a negative integer \<open>p\<close>, \<open>parsePage\<close>
  returns \<open>p\<close> unchanged, and for every record list of length \<open>total\<close> and every limit
  \<open>l > 0\<close>, \<open>getPagedData\<close> computes the negative start index \<open>(p-1)*l\<close> and returns, by
  the semantics of \<^verbatim>\<open>slice\<close>, the records at the indices counted from the end of the list,
  \<open>[max(total + (p-1)*l, 0), max(total + p*l, 0))\<close>. That page is empty exactly when
  \<open>total \<le> |p|*l\<close>.
\<close>

theorem negative_page_slice:
  assumes "parseInt10 (q_page q) = Some p" and "p < 0" and "0 < l"
  shows "parsePage q = p \<and> (p - 1) * l < 0 \<and>
    getPagedData xs p l
      = map ((!) xs) [nat (max (int (length xs) + (p - 1) * l) 0)
                      ..< nat (max (int (length xs) + p * l) 0)] \<and>
    (getPagedData xs p l = [] \<longleftrightarrow> int (length xs) \<le> - p * l)"
proof -
  let ?len = "int (length xs)"
  let ?k = "max (?len + (p - 1) * l) 0" and ?f = "max (?len + p * l) 0"
  have pp: "parsePage q = p"
    using assms by (simp add: parsePage_def)
  have neg: "(p - 1) * l < 0" "p * l < 0"
    using assms by (simp_all add: mult_less_0_iff)
  have e: "(p - 1) * l + l = p * l"
    by (simp add: algebra_simps)
  have k_eq: "?len + (p - 1) * l = ?len + p * l - l"
    by (simp add: algebra_simps)
  have kf: "0 \<le> ?k" "?k \<le> ?f" "?f \<le> ?len"
    using neg(2) assms(3) unfolding k_eq by linarith+
  have sl: "getPagedData xs p l = take (nat (?f - ?k)) (drop (nat ?k) xs)"
    using neg by (simp add: getPagedData_def slice_def Let_def e)
  have td: "take (nat (?f - ?k)) (drop (nat ?k) xs)
      = map ((!) xs) [min (nat ?k) (length xs) ..< min (nat ?k + nat (?f - ?k)) (length xs)]"
    by (rule take_drop_indices)
  have m1: "min (nat ?k) (length xs) = nat ?k"
    and m2: "min (nat ?k + nat (?f - ?k)) (length xs) = nat ?f"
    using range_clamped [OF kf] by blast+
  have idx: "getPagedData xs p l = map ((!) xs) [nat ?k ..< nat ?f]"
    unfolding sl td m1 m2 by (rule refl)
  have "getPagedData xs p l = [] \<longleftrightarrow> nat ?f \<le> nat ?k"
    unfolding idx by (rule map_upt_Nil)
  also have "\<dots> \<longleftrightarrow> ?len + p * l \<le> 0"
    unfolding k_eq using assms(3) by (rule range_empty_iff)
  also have "\<dots> \<longleftrightarrow> ?len \<le> - p * l"
    by linarith
  finally have emp: "getPagedData xs p l = [] \<longleftrightarrow> ?len \<le> - p * l" .
  from pp neg(1) idx emp show ?thesis by blast
qed

theorem negative_page_slice_witness:
  "parsePage \<lparr>q_page = JStr ''-1'', q_limit = JStr ''25'', q_sort = JUndefined,
              q_all = JUndefined\<rparr> = - 1 \<and>
   getPagedData [0..<60] (- 1) 25 = [10..<35] \<and>
   getPagedData [0..<25] (- 1) 25 = []"
proof -
  let ?q = "\<lparr>q_page = JStr ''-1'', q_limit = JStr ''25'', q_sort = JUndefined,
              q_all = JUndefined\<rparr>"
  have p: "parseInt10 (q_page ?q) = Some (- 1)"
    by code_simp
  have m: "map ((!) [0..<60]) [10..<35] = [10..<35]"
    by code_simp
  from negative_page_slice [OF p, of 25 "[0..<60]"] negative_page_slice [OF p, of 25 "[0..<25]"] m
  show ?thesis by simp
qed

section \<open>Properties of the location enrichment\<close>



lemma temMunicipio_padronizar: "temMunicipio (padronizar foco) = temMunicipio foco"
  by (simp add: padronizar_def temMunicipio_def spreadLocalizacao_def split: option.splits)

lemma addMunicipalityLocationData_Inr:
  "batchLocate A (toPoints A fires) = Inr ls \<Longrightarrow>
     addMunicipalityLocationData A fires = Inr (map padronizar ls)"
  by (simp add: addMunicipalityLocationData_def)

lemma addMunicipalityLocationData_Inl:
  "batchLocate A (toPoints A fires) = Inl e \<Longrightarrow> addMunicipalityLocationData A fires = Inl e"
  by (simp add: addMunicipalityLocationData_def)


lemma tentarGeoJSON_unresolved:
  "batchLocate A (toPoints A fires) = Inr ls \<Longrightarrow> \<not> list_all temMunicipio ls \<Longrightarrow>
     tentarGeoJSON A fires = Inl GeoJSONIncompleto"
  by (simp add: tentarGeoJSON_def addMunicipalityLocationData_Inr list_all_iff
      temMunicipio_padronizar)

lemma tentarGeoJSON_failed:
  "batchLocate A (toPoints A fires) = Inl e \<Longrightarrow> tentarGeoJSON A fires = Inl e"
  by (simp add: tentarGeoJSON_def addMunicipalityLocationData_Inl)

lemma tentarGeoJSON_Inr_D:
  "tentarGeoJSON A fires = Inr located \<Longrightarrow>
     \<exists>ls. batchLocate A (toPoints A fires) = Inr ls \<and> list_all temMunicipio ls \<and>
          located = map padronizar ls"
  by (auto simp add: tentarGeoJSON_def addMunicipalityLocationData_def Let_def list_all_iff
      temMunicipio_padronizar split: sum.splits if_splits)


lemma addLocationData_fallback:
  "tentarGeoJSON A fires = Inl e \<Longrightarrow>
     addLocationData A fires =
       ([toPoints A fires],
        case batchGeocode A (toPoints A fires) of
          Inl e' \<Rightarrow> Inl e'
        | Inr locations \<Rightarrow>
            Inr (map (\<lambda>item. ViaMapbox (g_fireData item) (g_localizacao item)) locations))"
  by (simp add: addLocationData_def Let_def)

lemma batchLocate_exemplo:
  "batchLocate (ambienteDeExemplo s) ps
     = Inr (map (\<lambda>p. \<lparr>ponto = p, localizacao = poligonosDeExemplo p\<rparr>) ps)"
  by (simp add: ambienteDeExemplo_def)

lemma toPoints_exemplo:
  "toPoints (ambienteDeExemplo s) fires
     = map (\<lambda>f. \<lparr>pt_longitude = longitude f, pt_latitude = latitude f, fireData = f\<rparr>) fires"
  by (simp add: toPoints_def ambienteDeExemplo_def)

lemma toPoints_semGeoJSON:
  "toPoints (ambienteSemGeoJSON s) fires
     = map (\<lambda>f. \<lparr>pt_longitude = longitude f, pt_latitude = latitude f, fireData = f\<rparr>) fires"
  by (simp add: toPoints_def ambienteSemGeoJSON_def)

lemma batchGeocode_exemplo:
  "batchGeocode (ambienteDeExemplo s) = geocoderDeExemplo s"
  "batchGeocode (ambienteSemGeoJSON s) = geocoderDeExemplo s"
  by (simp_all add: ambienteDeExemplo_def ambienteSemGeoJSON_def)



text \<open>
  Claim C6. In \<open>addLocationData\<close>, an error of the GeoJSON pass, and the error the pass
  raises on an incomplete result, never reach the caller: the fallback runs, and its
  outcome is the outcome of the call. When the fallback's \<open>batchGeocode\<close> fails, its error
  is the outcome of the call, and there are no records in it.
\<close>

theorem addLocationData_error_paths:
  "(\<exists>e. batchLocate A (toPoints A fires) = Inl e) \<or>
   (\<exists>ls. batchLocate A (toPoints A fires) = Inr ls \<and> \<not> list_all temMunicipio ls) \<Longrightarrow>
     (\<forall>locations. batchGeocode A (toPoints A fires) = Inr locations \<longrightarrow>
        addLocationData A fires
          = ([toPoints A fires],
             Inr (map (\<lambda>item. ViaMapbox (g_fireData item) (g_localizacao item)) locations))) \<and>
     (\<forall>e'. batchGeocode A (toPoints A fires) = Inl e' \<longrightarrow>
        addLocationData A fires = ([toPoints A fires], Inl e'))"
proof -
  assume "(\<exists>e. batchLocate A (toPoints A fires) = Inl e) \<or>
   (\<exists>ls. batchLocate A (toPoints A fires) = Inr ls \<and> \<not> list_all temMunicipio ls)"
  then obtain e where "tentarGeoJSON A fires = Inl e"
    using tentarGeoJSON_failed tentarGeoJSON_unresolved by blast
  then show ?thesis
    by (simp add: addLocationData_fallback)
qed

theorem addLocationData_error_paths_witness:
  "addLocationData (ambienteSemGeoJSON servicoDeExemplo) [focoDeExemplo ''-55.5'']
     = ([[\<lparr>pt_longitude = JStr ''-55.5'', pt_latitude = JStr ''-15.6'',
           fireData = focoDeExemplo ''-55.5''\<rparr>]],
        Inr [ViaMapbox (focoDeExemplo ''-55.5'')
               (Some \<lparr>municipio = Some ''Sinop'', comandoRegional = None,
                      cidade = Some ''Sinop''\<rparr>)]) \<and>
   addLocationData (ambienteDeExemplo servicoForaDoAr) [focoDeExemplo ''-55.5'']
     = ([[\<lparr>pt_longitude = JStr ''-55.5'', pt_latitude = JStr ''-15.6'',
           fireData = focoDeExemplo ''-55.5''\<rparr>]],
        Inl (Falha ''timeout''))"
proof -
  let ?p = "\<lparr>pt_longitude = JStr ''-55.5'', pt_latitude = JStr ''-15.6'',
             fireData = focoDeExemplo ''-55.5''\<rparr>"
  let ?A = "ambienteSemGeoJSON servicoDeExemplo" and ?B = "ambienteDeExemplo servicoForaDoAr"
  have ptsA: "toPoints ?A [focoDeExemplo ''-55.5''] = [?p]"
    by (simp add: toPoints_semGeoJSON focoDeExemplo_def)
  have ptsB: "toPoints ?B [focoDeExemplo ''-55.5''] = [?p]"
    by (simp add: toPoints_exemplo focoDeExemplo_def)
  have failA: "\<exists>e. batchLocate ?A (toPoints ?A [focoDeExemplo ''-55.5'']) = Inl e"
    by (simp add: ambienteSemGeoJSON_def)
  have incB: "\<exists>ls. batchLocate ?B (toPoints ?B [focoDeExemplo ''-55.5'']) = Inr ls \<and>
      \<not> list_all temMunicipio ls"
    by (simp add: ptsB batchLocate_exemplo poligonosDeExemplo_def temMunicipio_def)
  have geoA: "batchGeocode ?A (toPoints ?A [focoDeExemplo ''-55.5''])
      = Inr [\<lparr>g_fireData = focoDeExemplo ''-55.5'',
              g_localizacao = Some \<lparr>municipio = Some ''Sinop'', comandoRegional = None,
                                    cidade = Some ''Sinop''\<rparr>\<rparr>]"
    by (simp add: ptsA batchGeocode_exemplo geocoderDeExemplo_def servicoDeExemplo_def
        Let_def)
  have geoB: "batchGeocode ?B (toPoints ?B [focoDeExemplo ''-55.5'']) = Inl (Falha ''timeout'')"
    by (simp add: batchGeocode_exemplo geocoderDeExemplo_def servicoForaDoAr_def)
  from addLocationData_error_paths [of ?A "[focoDeExemplo ''-55.5'']"] failA geoA
  have a: "addLocationData ?A [focoDeExemplo ''-55.5'']
      = ([toPoints ?A [focoDeExemplo ''-55.5'']],
         Inr (map (\<lambda>item. ViaMapbox (g_fireData item) (g_localizacao item))
                [\<lparr>g_fireData = focoDeExemplo ''-55.5'',
                  g_localizacao = Some \<lparr>municipio = Some ''Sinop'', comandoRegional = None,
                                        cidade = Some ''Sinop''\<rparr>\<rparr>]))"
    by blast
  from addLocationData_error_paths [of ?B "[focoDeExemplo ''-55.5'']"] incB geoB
  have b: "addLocationData ?B [focoDeExemplo ''-55.5'']
      = ([toPoints ?B [focoDeExemplo ''-55.5'']], Inl (Falha ''timeout''))"
    by blast
  from a b show ?thesis
    unfolding ptsA ptsB by simp
qed








section \<open>Properties of the in-flight registry\<close>

lemma coerente_getOrCreate: "coerente s \<Longrightarrow> coerente (snd (getOrCreate s k))"
  by (auto simp add: coerente_def getOrCreate_def less_Suc_eq split: option.splits)

lemma coerente_concluir: "coerente s \<Longrightarrow> coerente (concluir s k out)"
  by (auto simp add: coerente_def concluir_def split: option.splits if_splits)

lemma em_voo:
  "coerente s \<Longrightarrow> registro s k = Some t \<Longrightarrow>
   \<forall>out. Conclusao k out \<notin> set es \<and> Limpeza \<notin> set es \<Longrightarrow>
     (\<forall>p \<in> set (fst (executar s es)). fst p = k \<longrightarrow> snd p = t) \<and>
     count_list (fabricadas (snd (executar s es))) k = count_list (fabricadas s) k \<and>
     registro (snd (executar s es)) k = Some t \<and>
     coerente (snd (executar s es))"
proof (induction es arbitrary: s)
  case Nil
  then show ?case by simp
next
  case (Cons e es)
  show ?case
  proof (cases e)
    case (Pedido k')
    let ?s1 = "snd (getOrCreate s k')"
    have c1: "coerente ?s1" using Cons.prems(1) by (rule coerente_getOrCreate)
    have r1: "registro ?s1 k = Some t"
      using Cons.prems(2) by (cases "k' = k") (simp_all add: getOrCreate_def split: option.splits)
    have f1: "count_list (fabricadas ?s1) k = count_list (fabricadas s) k"
      using Cons.prems(2) by (cases "k' = k") (simp_all add: getOrCreate_def split: option.splits)
    have t1: "k' = k \<Longrightarrow> fst (getOrCreate s k') = t"
      using Cons.prems(2) by (simp add: getOrCreate_def)
    from Cons.prems(3) have "\<forall>out. Conclusao k out \<notin> set es \<and> Limpeza \<notin> set es" by simp
    from Cons.IH [OF c1 r1 this] f1 t1 Pedido show ?thesis
      by (auto simp add: split_beta Let_def)
  next
    case (Conclusao k' out)
    with Cons.prems(3) have ne: "k' \<noteq> k" by auto
    let ?s1 = "concluir s k' out"
    have c1: "coerente ?s1" using Cons.prems(1) by (rule coerente_concluir)
    have r1: "registro ?s1 k = Some t"
      using Cons.prems(2) ne by (simp add: concluir_def split: option.splits)
    have f1: "fabricadas ?s1 = fabricadas s"
      by (simp add: concluir_def split: option.splits)
    from Cons.prems(3) have "\<forall>out. Conclusao k out \<notin> set es \<and> Limpeza \<notin> set es" by simp
    from Cons.IH [OF c1 r1 this] f1 Conclusao show ?thesis
      by simp
  next
    case Limpeza
    with Cons.prems(3) show ?thesis by simp
  qed
qed

lemma primeiro_pedido:
  "coerente s \<Longrightarrow> registro s k = None \<Longrightarrow> Pedido k \<in> set es \<Longrightarrow>
   \<forall>out. Conclusao k out \<notin> set es \<and> Limpeza \<notin> set es \<Longrightarrow>
     \<exists>t. (\<forall>p \<in> set (fst (executar s es)). fst p = k \<longrightarrow> snd p = t) \<and>
         count_list (fabricadas (snd (executar s es))) k = Suc (count_list (fabricadas s) k) \<and>
         registro (snd (executar s es)) k = Some t \<and>
         coerente (snd (executar s es))"
proof (induction es arbitrary: s)
  case Nil
  then show ?case by simp
next
  case (Cons e es)
  from Cons.prems(4) have nc: "\<forall>out. Conclusao k out \<notin> set es \<and> Limpeza \<notin> set es" by simp
  show ?case
  proof (cases e)
    case (Pedido k')
    let ?s1 = "snd (getOrCreate s k')"
    have c1: "coerente ?s1" using Cons.prems(1) by (rule coerente_getOrCreate)
    show ?thesis
    proof (cases "k' = k")
      case True
      have r1: "registro ?s1 k = Some (proxima s)"
        using Cons.prems(2) True by (simp add: getOrCreate_def)
      have f1: "count_list (fabricadas ?s1) k = Suc (count_list (fabricadas s) k)"
        using Cons.prems(2) True by (simp add: getOrCreate_def)
      have t1: "fst (getOrCreate s k') = proxima s"
        using Cons.prems(2) True by (simp add: getOrCreate_def)
      from em_voo [OF c1 r1 nc] f1 t1 Pedido True show ?thesis
        by (auto simp add: split_beta Let_def)
    next
      case False
      have r1: "registro ?s1 k = None"
        using Cons.prems(2) False by (simp add: getOrCreate_def split: option.splits)
      have f1: "count_list (fabricadas ?s1) k = count_list (fabricadas s) k"
        using False by (simp add: getOrCreate_def split: option.splits)
      from Cons.prems(3) Pedido False have "Pedido k \<in> set es" by simp
      from Cons.IH [OF c1 r1 this nc] f1 Pedido False show ?thesis
        by (auto simp add: split_beta Let_def)
    qed
  next
    case (Conclusao k' out)
    with Cons.prems(4) have ne: "k' \<noteq> k" by auto
    let ?s1 = "concluir s k' out"
    have c1: "coerente ?s1" using Cons.prems(1) by (rule coerente_concluir)
    have r1: "registro ?s1 k = None"
      using Cons.prems(2) ne by (simp add: concluir_def split: option.splits)
    have f1: "fabricadas ?s1 = fabricadas s"
      by (simp add: concluir_def split: option.splits)
    from Cons.prems(3) Conclusao have "Pedido k \<in> set es" by simp
    from Cons.IH [OF c1 r1 this nc] f1 Conclusao show ?thesis
      by simp
  next
    case Limpeza
    with Cons.prems(4) show ?thesis by simp
  qed
qed

lemma depois_de_concluir:
  "coerente s \<Longrightarrow> registro s k = Some t \<Longrightarrow>
     registro (concluir s k out) k = None \<and>
     resultados (concluir s k out) t = Some out \<and>
     fst (getOrCreate (concluir s k out) k) \<noteq> t \<and>
     count_list (fabricadas (snd (getOrCreate (concluir s k out) k))) k
       = Suc (count_list (fabricadas s) k)"
  by (auto simp add: coerente_def concluir_def getOrCreate_def)

text \<open>
  Claim C9, as stated, fails: \<open>limparTodosCaches\<close> clears the in-flight map. Two calls for
  the same key, neither settled, with a reset between them: the second call finds no
  entry, the factory is invoked twice, and the two callers hold different computations.
\<close>

theorem getOrCreate_reset_counterexample:
  "registro (emVoo_inicial :: nat emVoo) ''a'' = None \<and>
   fst (executar (emVoo_inicial :: nat emVoo) [Pedido ''a'', Limpeza, Pedido ''a''])
     = [(''a'', 0), (''a'', 1)] \<and>
   fabricadas (snd (executar (emVoo_inicial :: nat emVoo) [Pedido ''a'', Limpeza, Pedido ''a'']))
     = [''a'', ''a'']"
proof (intro conjI)
  show "registro (emVoo_inicial :: nat emVoo) ''a'' = None"
    by (simp add: emVoo_inicial_def cachecore_inicial_def)
  show "fst (executar (emVoo_inicial :: nat emVoo) [Pedido ''a'', Limpeza, Pedido ''a''])
     = [(''a'', 0), (''a'', 1)]"
    by code_simp
  show "fabricadas (snd (executar (emVoo_inicial :: nat emVoo)
          [Pedido ''a'', Limpeza, Pedido ''a''])) = [''a'', ''a'']"
    by code_simp
qed

text \<open>
  Claim C9, amended. Take any run of calls and settlements, of any keys, in which the key
  \<open>k\<close> is asked for at least once, starting with no computation registered for \<open>k\<close>, and
  in which the computation of \<open>k\<close> does not settle and \<open>limparTodosCaches\<close> is not called.
  Then the factory is invoked exactly once for \<open>k\<close>, and all callers for \<open>k\<close> hold the same
  computation, which is still registered. When it settles, with a result or an error,
  every one of these callers receives that same outcome, the entry of \<open>k\<close> is gone, and the
  next call for \<open>k\<close> starts a new computation with a second invocation of the factory.
\<close>

theorem getOrCreate_single_flight:
  assumes "coerente s" and "registro s k = None" and "Pedido k \<in> set es"
    and "\<forall>out. Conclusao k out \<notin> set es \<and> Limpeza \<notin> set es"
  shows "\<exists>t. registro (snd (executar s es)) k = Some t \<and>
     (\<forall>p \<in> set (fst (executar s es)). fst p = k \<longrightarrow> snd p = t) \<and>
     count_list (fabricadas (snd (executar s es))) k = Suc (count_list (fabricadas s) k) \<and>
     (\<forall>out. registro (concluir (snd (executar s es)) k out) k = None \<and>
            (\<forall>p \<in> set (fst (executar s es)). fst p = k \<longrightarrow>
               resultados (concluir (snd (executar s es)) k out) (snd p) = Some out) \<and>
            fst (getOrCreate (concluir (snd (executar s es)) k out) k) \<noteq> t \<and>
            count_list (fabricadas (snd (getOrCreate (concluir (snd (executar s es)) k out) k))) k
              = Suc (Suc (count_list (fabricadas s) k)))"
proof -
  from primeiro_pedido [OF assms] obtain t where
    same: "\<forall>p \<in> set (fst (executar s es)). fst p = k \<longrightarrow> snd p = t"
    and once: "count_list (fabricadas (snd (executar s es))) k = Suc (count_list (fabricadas s) k)"
    and reg: "registro (snd (executar s es)) k = Some t"
    and coe: "coerente (snd (executar s es))"
    by blast
  have "registro (concluir (snd (executar s es)) k out) k = None \<and>
        (\<forall>p \<in> set (fst (executar s es)). fst p = k \<longrightarrow>
           resultados (concluir (snd (executar s es)) k out) (snd p) = Some out) \<and>
        fst (getOrCreate (concluir (snd (executar s es)) k out) k) \<noteq> t \<and>
        count_list (fabricadas (snd (getOrCreate (concluir (snd (executar s es)) k out) k))) k
          = Suc (Suc (count_list (fabricadas s) k))" for out
    using depois_de_concluir [OF coe reg, of out] same once by auto
  with reg same once show ?thesis by blast
qed

theorem getOrCreate_single_flight_witness:
  "fst (executar (emVoo_inicial :: nat emVoo)
          [Pedido ''a'', Pedido ''b'', Pedido ''a'', Conclusao ''b'' (Inl (Falha ''timeout'')),
           Pedido ''b'', Pedido ''a''])
     = [(''a'', 0), (''b'', 1), (''a'', 0), (''b'', 2), (''a'', 0)] \<and>
   count_list (fabricadas (snd (executar (emVoo_inicial :: nat emVoo)
          [Pedido ''a'', Pedido ''b'', Pedido ''a'', Conclusao ''b'' (Inl (Falha ''timeout'')),
           Pedido ''b'', Pedido ''a'']))) ''a'' = 1 \<and>
   registro (concluir (snd (executar (emVoo_inicial :: nat emVoo)
          [Pedido ''a'', Pedido ''b'', Pedido ''a'', Conclusao ''b'' (Inl (Falha ''timeout'')),
           Pedido ''b'', Pedido ''a''])) ''a'' (Inr 7)) ''a'' = None"
proof -
  let ?es = "[Pedido ''a'', Pedido ''b'', Pedido ''a'', Conclusao ''b'' (Inl (Falha ''timeout'')),
           Pedido ''b'', Pedido ''a''] :: nat evento list"
  let ?s = "emVoo_inicial :: nat emVoo"
  have c: "coerente ?s"
    by (simp add: coerente_def emVoo_inicial_def cachecore_inicial_def)
  have r: "registro ?s ''a'' = None"
    by (simp add: emVoo_inicial_def cachecore_inicial_def)
  have p: "Pedido ''a'' \<in> set ?es"
    by simp
  have n: "\<forall>out. Conclusao ''a'' out \<notin> set ?es \<and> Limpeza \<notin> set ?es"
    by simp
  have f: "count_list (fabricadas ?s) ''a'' = 0"
    by (simp add: emVoo_inicial_def)
  have tickets: "fst (executar ?s ?es) = [(''a'', 0), (''b'', 1), (''a'', 0), (''b'', 2), (''a'', 0)]"
    by code_simp
  from getOrCreate_single_flight [OF c r p n] f
  have "count_list (fabricadas (snd (executar ?s ?es))) ''a'' = 1 \<and>
        registro (concluir (snd (executar ?s ?es)) ''a'' (Inr 7)) ''a'' = None"
    by auto
  with tickets show ?thesis by blast
qed

end
